theory Spec2Isabelle
  imports Complex_Main
begin

section \<open>Errors and results\<close>

text \<open>
  The Python exceptions that the modelled code can raise. A function that can raise
  returns \<open>error + 'a\<close>, with \<open>Inl\<close> for the exception.
\<close>

datatype error =
  AssertionError | TypeError | ValueError | ZeroDivisionError | RuntimeError | IndexError

definition bindE :: "error + 'a \<Rightarrow> ('a \<Rightarrow> error + 'b) \<Rightarrow> error + 'b" where
  "bindE m f = (case m of Inl e \<Rightarrow> Inl e | Inr v \<Rightarrow> f v)"

section \<open>Configuration\<close>

text \<open>
  The dataclass \<open>ModelArgs\<close>. Python's unbounded integers are \<open>int\<close>, the optional
  fields are options, floats are idealised as reals.
\<close>

record ModelArgs =
  dim :: int
  n_layers :: int
  n_heads :: int
  n_kv_heads :: "int option"
  vocab_size :: int
  multiple_of :: int
  ffn_dim_multiplier :: "real option"
  norm_eps :: real
  max_batch_size :: int
  max_seq_len :: int
  device :: "string option"

text \<open>The defaults of the dataclass.\<close>

definition default_args :: ModelArgs where
  "default_args = \<lparr>dim = 4096, n_layers = 32, n_heads = 32, n_kv_heads = None,
     vocab_size = -1, multiple_of = 256, ffn_dim_multiplier = None, norm_eps = 1 / 10000,
     max_batch_size = 32, max_seq_len = 2048, device = None\<rparr>"

section \<open>Python and tensor-library primitives\<close>

text \<open>
  Floor division raises on a zero divisor. For a non-zero divisor Python's \<open>//\<close> and
  \<open>%\<close> on integers are HOL's \<open>div\<close> and \<open>mod\<close> (both round towards minus infinity).
\<close>

definition py_floordiv :: "int \<Rightarrow> int \<Rightarrow> error + int" where
  "py_floordiv a b = (if b = 0 then Inl ZeroDivisionError else Inr (a div b))"

text \<open>
  \<open>int(x)\<close> of a float truncates towards zero.
\<close>

definition py_int :: "real \<Rightarrow> int" where
  "py_int r = (if 0 \<le> r then \<lfloor>r\<rfloor> else \<lceil>r\<rceil>)"

text \<open>
  \<open>torch.arange(0, stop, step)\<close> with a positive step: the values \<open>0, step, 2 step, ...\<close>
  below \<open>stop\<close>; a negative \<open>stop\<close> is rejected by the library (the bounds are inconsistent
  with the sign of the step).
\<close>

definition torch_arange :: "int \<Rightarrow> int \<Rightarrow> error + int list" where
  "torch_arange stop step =
     (if stop < 0 then Inl RuntimeError
      else Inr (map (\<lambda>k. int k * step) [0 ..< nat ((stop + step - 1) div step)]))"

text \<open>
  A Python slice \<open>xs[lo:hi]\<close> with integer bounds: a negative bound counts from the end,
  and every bound is clamped to the length. It never raises.
\<close>

definition slice_bound :: "nat \<Rightarrow> int \<Rightarrow> nat" where
  "slice_bound n i = (if i < 0 then nat (max (i + int n) 0) else min (nat i) n)"

definition py_slice :: "int \<Rightarrow> int \<Rightarrow> 'a list \<Rightarrow> 'a list" where
  "py_slice lo hi xs =
     (let l = slice_bound (length xs) lo; h = slice_bound (length xs) hi
      in take (h - l) (drop l xs))"

section \<open>Rotary embedding table\<close>

text \<open>
  \<open>precompute_theta_pos_embeddings(head_dim, seq_len, device, theta)\<close>. The statement
  \<open>assert head_dim % 2\<close> passes exactly when the remainder is non-zero. The exponents
  are \<open>arange(0, head_dim, 2) / head_dim\<close>, the frequencies \<open>1 / theta ** exponent\<close>,
  the angles the outer product of the positions \<open>arange(seq_len)\<close> with the frequencies,
  and \<open>torch.polar(1, angle)\<close> is \<open>cis angle\<close>. Floats are idealised reals, the power
  is \<open>powr\<close> (the base is positive), and the device is not modelled.
\<close>

definition precompute_theta_pos_embeddings :: "int \<Rightarrow> int \<Rightarrow> real \<Rightarrow> error + complex list list" where
  "precompute_theta_pos_embeddings head_dim seq_len theta =
     (if \<not> (head_dim mod 2 \<noteq> 0) then Inl AssertionError
      else bindE (torch_arange head_dim 2) (\<lambda>theta_numerator.
        let thetas = map (\<lambda>n. 1 / (theta powr (real_of_int n / real_of_int head_dim))) theta_numerator
        in bindE (torch_arange seq_len 1) (\<lambda>m.
          let freqs = map (\<lambda>p. map (\<lambda>t. real_of_int p * t) thetas) m
          in Inr (map (map cis) freqs))))"

section \<open>Head-group expansion\<close>

text \<open>
  \<open>repeat_kv(x, n_rep)\<close>. The tensor \<open>x\<close> of shape \<open>[batch, seq, n_kv_heads, head_dim]\<close>
  is a list (batch) of lists (positions) of lists (heads) of head vectors; the head vector
  is kept abstract, since no operation here looks into it. For \<open>n_rep \<noteq> 1\<close> the source
  inserts an axis of size one after the head axis, expands it to \<open>n_rep\<close> (each head
  becomes \<open>n_rep\<close> copies of itself) and merges the two axes by \<open>reshape\<close>, which on
  row-major data is the concatenation of the groups of copies. The replication factor is
  a count, hence a natural number.
\<close>

definition repeat_kv :: "'a list list list \<Rightarrow> nat \<Rightarrow> 'a list list list" where
  "repeat_kv x n_rep =
     (if n_rep = 1 then x
      else map (map (\<lambda>heads. concat (map (replicate n_rep) heads))) x)"


section \<open>Rotary embedding application\<close>

text \<open>
  Helpers for code that works through a tensor and can raise: \<open>mapE\<close> stops at the
  first error, as the exception would.
\<close>

fun mapE :: "('a \<Rightarrow> error + 'b) \<Rightarrow> 'a list \<Rightarrow> error + 'b list" where
  "mapE f [] = Inr []"
| "mapE f (x # xs) = bindE (f x) (\<lambda>y. bindE (mapE f xs) (\<lambda>ys. Inr (y # ys)))"

text \<open>
  Broadcasting of one axis: two sizes are compatible when they are equal or one of them
  is 1, and the axis of size 1 is repeated; otherwise the library raises.
\<close>

definition bzip :: "'a list \<Rightarrow> 'b list \<Rightarrow> error + ('a \<times> 'b) list" where
  "bzip xs ys =
     (if length xs = length ys then Inr (zip xs ys)
      else if length xs = 1 then Inr (zip (replicate (length ys) (hd xs)) ys)
      else if length ys = 1 then Inr (zip xs (replicate (length xs) (hd ys)))
      else Inl RuntimeError)"

definition broadcast_op :: "('a \<Rightarrow> 'b \<Rightarrow> error + 'c) \<Rightarrow> 'a list \<Rightarrow> 'b list \<Rightarrow> error + 'c list" where
  "broadcast_op f xs ys = bindE (bzip xs ys) (mapE (\<lambda>(x, y). f x y))"

text \<open>
  A positional argument of a library call: a Python integer or a tensor.
\<close>

datatype 'a pyarg = PyInt int | PyTensor 'a

text \<open>
  \<open>torch.unsqueeze(input, dim)\<close> on a tensor of two axes: both arguments are required,
  and \<open>input\<close> must be a tensor; any other call is a \<open>TypeError\<close>. The method
  \<open>t.unsqueeze(dim)\<close> on a tensor of three axes follows.
\<close>

definition torch_unsqueeze :: "('a list list) pyarg \<Rightarrow> int option \<Rightarrow> error + 'a list list list" where
  "torch_unsqueeze input d =
     (case (input, d) of
        (PyTensor t, Some k) \<Rightarrow>
          (if k = 0 \<or> k = -3 then Inr [t]
           else if k = 1 \<or> k = -2 then Inr (map (\<lambda>r. [r]) t)
           else if k = 2 \<or> k = -1 then Inr (map (map (\<lambda>c. [c])) t)
           else Inl IndexError)
      | _ \<Rightarrow> Inl TypeError)"

definition unsqueeze3 :: "'a list list list \<Rightarrow> int \<Rightarrow> error + 'a list list list list" where
  "unsqueeze3 t k =
     (if k = 0 \<or> k = -4 then Inr [t]
      else if k = 1 \<or> k = -3 then Inr (map (\<lambda>m. [m]) t)
      else if k = 2 \<or> k = -2 then Inr (map (map (\<lambda>r. [r])) t)
      else if k = 3 \<or> k = -1 then Inr (map (map (map (\<lambda>c. [c]))) t)
      else Inl IndexError)"

text \<open>
  \<open>torch.view_as_complex(x.float().reshape(*x.shape[:-1], -1, 2))\<close> on the last axis:
  consecutive coordinates are paired; an odd number of coordinates cannot be reshaped.
\<close>

fun pairs :: "real list \<Rightarrow> error + complex list" where
  "pairs [] = Inr []"
| "pairs [a] = Inl RuntimeError"
| "pairs (a # b # xs) = bindE (pairs xs) (\<lambda>r. Inr (Complex a b # r))"

text \<open>
  \<open>apply_rotary_embeddings(x, freqs_complex, device)\<close>, with \<open>x\<close> of shape
  \<open>[batch, seq, heads, head_dim]\<close> and \<open>freqs_complex\<close> of shape \<open>[seq, head_dim / 2]\<close>.
  The reshape with an inferred size \<open>-1\<close> also rejects a tensor without head vectors
  (the inferred size is then ambiguous).
  The second statement of the source is \<open>torch.unsqueeze(0).unsqueeze(2)\<close>: the library
  function is called with the integer 0 as its only argument, and the parameter
  \<open>freqs_complex\<close> is not used. The casts \<open>float()\<close>, \<open>type_as(x)\<close> and the device
  are not modelled: numbers are idealised reals.
\<close>

definition apply_rotary_embeddings ::
    "real list list list list \<Rightarrow> complex list list \<Rightarrow> error + real list list list list" where
  "apply_rotary_embeddings x freqs_complex =
     (if concat (concat x) = [] then Inl RuntimeError
      else bindE (mapE (mapE (mapE pairs)) x) (\<lambda>x_complex.
        bindE (bindE (torch_unsqueeze (PyInt 0) None) (\<lambda>t. unsqueeze3 t 2)) (\<lambda>freqs_complex.
          bindE (broadcast_op (broadcast_op (broadcast_op (broadcast_op
                   (\<lambda>a b. Inr (a * (b::complex)))))) x_complex freqs_complex) (\<lambda>x_rotated.
            let x_out = map (map (map (\<lambda>v. concat (map (\<lambda>c. [Re c, Im c]) v)))) x_rotated
            in Inr x_out))))"

section \<open>RMS normalisation\<close>

record RMSNorm =
  rms_eps :: real
  rms_weight :: "real list"

text \<open>\<open>torch.ones\<close>, \<open>torch.zeros\<close> and the parameter tensors of \<open>nn.Linear\<close> and
  \<open>nn.Embedding\<close> cannot be created with a negative size.\<close>

definition RMSNorm_init :: "int \<Rightarrow> real \<Rightarrow> error + RMSNorm" where
  "RMSNorm_init d eps =
     (if d < 0 then Inl RuntimeError
      else Inr \<lparr>rms_eps = eps, rms_weight = replicate (nat d) 1\<rparr>)"

text \<open>\<open>_norm\<close> and \<open>forward\<close> on one non-empty vector of the last axis.\<close>

definition RMSNorm_norm :: "RMSNorm \<Rightarrow> real list \<Rightarrow> real list" where
  "RMSNorm_norm self x =
     map (\<lambda>a. a * (1 / sqrt (sum_list (map (\<lambda>b. b ^ 2) x) / real (length x) + rms_eps self))) x"

definition RMSNorm_forward :: "RMSNorm \<Rightarrow> real list \<Rightarrow> error + real list" where
  "RMSNorm_forward self x =
     broadcast_op (\<lambda>w a. Inr (w * a)) (rms_weight self) (RMSNorm_norm self x)"

section \<open>Construction of the modules\<close>

text \<open>
  What a constructor fixes is the layout: the sizes of the parameter tensors (their
  initial values are random) and of the buffers. \<open>nn.Linear(i, o)\<close> has a weight of
  shape \<open>[o, i]\<close>.
\<close>

record Linear =
  in_features :: int
  out_features :: int

definition nn_Linear :: "int \<Rightarrow> int \<Rightarrow> error + Linear" where
  "nn_Linear i out =
     (if i < 0 \<or> out < 0 then Inl RuntimeError
      else Inr \<lparr>in_features = i, out_features = out\<rparr>)"

record Embedding =
  num_embeddings :: int
  embedding_dim :: int

definition nn_Embedding :: "int \<Rightarrow> int \<Rightarrow> error + Embedding" where
  "nn_Embedding n d =
     (if n < 0 \<or> d < 0 then Inl RuntimeError
      else Inr \<lparr>num_embeddings = n, embedding_dim = d\<rparr>)"

definition torch_zeros :: "int list \<Rightarrow> error + int list" where
  "torch_zeros shp = (if list_ex (\<lambda>n. n < 0) shp then Inl RuntimeError else Inr shp)"

record SelfAttention_layout =
  lay_n_kv_heads :: int
  lay_n_heads_q :: int
  lay_n_rep :: int
  lay_head_dim :: int
  lay_wq :: Linear
  lay_wk :: Linear
  lay_wv :: Linear
  lay_wo :: Linear
  lay_cache_k :: "int list"
  lay_cache_v :: "int list"

text \<open>
  \<open>SelfAttention.__init__(self, args)\<close>. The argument is an option: \<open>None\<close> is the call
  \<open>SelfAttention()\<close> that passes nothing for the required parameter, a \<open>TypeError\<close>
  before the body runs. In the body, \<open>wk\<close> and \<open>wv\<close> multiply \<open>args.n_kv_heads\<close>
  itself, which is a \<open>TypeError\<close> when that field is \<open>None\<close>.
\<close>

definition SelfAttention_init :: "ModelArgs option \<Rightarrow> error + SelfAttention_layout" where
  "SelfAttention_init a =
     (case a of
        None \<Rightarrow> Inl TypeError
      | Some args \<Rightarrow>
          (let kv = (case n_kv_heads args of None \<Rightarrow> n_heads args | Some k \<Rightarrow> k);
               q = n_heads args
           in bindE (py_floordiv q kv) (\<lambda>rep.
              bindE (py_floordiv (dim args) (n_heads args)) (\<lambda>hd.
              bindE (nn_Linear (dim args) (n_heads args * hd)) (\<lambda>wq.
              bindE (case n_kv_heads args of None \<Rightarrow> Inl TypeError
                     | Some k \<Rightarrow> nn_Linear (dim args) (k * hd)) (\<lambda>wk.
              bindE (case n_kv_heads args of None \<Rightarrow> Inl TypeError
                     | Some k \<Rightarrow> nn_Linear (dim args) (k * hd)) (\<lambda>wv.
              bindE (nn_Linear (n_heads args * hd) (dim args)) (\<lambda>wo.
              bindE (torch_zeros [max_batch_size args, max_seq_len args, kv, hd]) (\<lambda>ck.
              bindE (torch_zeros [max_batch_size args, max_seq_len args, kv, hd]) (\<lambda>cv.
                Inr \<lparr>lay_n_kv_heads = kv, lay_n_heads_q = q, lay_n_rep = rep,
                     lay_head_dim = hd, lay_wq = wq, lay_wk = wk, lay_wv = wv, lay_wo = wo,
                     lay_cache_k = ck, lay_cache_v = cv\<rparr>))))))))))"

record FeedForward_layout =
  lay_w1 :: Linear
  lay_w2 :: Linear
  lay_w3 :: Linear

text \<open>
  \<open>FeedForward.__init__(self, args)\<close>. The rounded width is bound to the name
  \<open>hidden\<close>; the three linear maps are built with \<open>hidden_dim\<close>.
\<close>

definition FeedForward_init :: "ModelArgs option \<Rightarrow> error + FeedForward_layout" where
  "FeedForward_init a =
     (case a of
        None \<Rightarrow> Inl TypeError
      | Some args \<Rightarrow>
          (let hidden_dim = 4 * dim args;
               hidden_dim = py_int (2 * real_of_int hidden_dim / 3);
               hidden_dim = (case ffn_dim_multiplier args of None \<Rightarrow> hidden_dim
                             | Some m \<Rightarrow> py_int m)
           in bindE (py_floordiv (hidden_dim + multiple_of args - 1) (multiple_of args)) (\<lambda>q.
              let hidden = multiple_of args * q
              in bindE (nn_Linear (dim args) hidden_dim) (\<lambda>w1.
                 bindE (nn_Linear hidden_dim (dim args)) (\<lambda>w2.
                 bindE (nn_Linear (dim args) hidden_dim) (\<lambda>w3.
                   Inr \<lparr>lay_w1 = w1, lay_w2 = w2, lay_w3 = w3\<rparr>))))))"

text \<open>
  The width the text of the design gives for the three linear maps: the same start and
  the same override, then rounded up to a multiple of \<open>multiple_of\<close>.
\<close>

definition spec_hidden_width :: "ModelArgs \<Rightarrow> int" where
  "spec_hidden_width args =
     (let w = (case ffn_dim_multiplier args of
                 None \<Rightarrow> py_int (2 * real_of_int (4 * dim args) / 3)
               | Some m \<Rightarrow> py_int m)
      in multiple_of args * ((w + multiple_of args - 1) div multiple_of args))"

record EncoderBlock_layout =
  lay_attention :: SelfAttention_layout
  lay_feed_forward :: FeedForward_layout
  lay_attention_norm :: RMSNorm
  lay_ffn_norm :: RMSNorm

text \<open>
  \<open>EncoderBlock.__init__(self, args)\<close>: the two sub-units are constructed as
  \<open>SelfAttention()\<close> and \<open>FeedForward()\<close>.
\<close>

definition EncoderBlock_init :: "ModelArgs \<Rightarrow> error + EncoderBlock_layout" where
  "EncoderBlock_init args =
     bindE (py_floordiv (dim args) (n_heads args)) (\<lambda>head_dim.
     bindE (SelfAttention_init None) (\<lambda>attention.
     bindE (FeedForward_init None) (\<lambda>feed_forward.
     bindE (RMSNorm_init (dim args) (norm_eps args)) (\<lambda>attention_norm.
     bindE (RMSNorm_init (dim args) (norm_eps args)) (\<lambda>ffn_norm.
       Inr \<lparr>lay_attention = attention, lay_feed_forward = feed_forward,
            lay_attention_norm = attention_norm, lay_ffn_norm = ffn_norm\<rparr>)))))"

record Transformers_layout =
  lay_tok_embeddings :: Embedding
  lay_layers :: "EncoderBlock_layout list"
  lay_norm :: RMSNorm
  lay_output :: Linear
  lay_freqs_complex :: "complex list list"

text \<open>
  \<open>Transformers.__init__(self, args)\<close>. The loop \<open>for _ in range(args.n_layers)\<close> runs
  \<open>n_layers\<close> times, and not at all when \<open>n_layers \<le> 0\<close>. The rotary table is built
  last, for \<open>max_seq_len * 2\<close> positions and the default base 10000.
\<close>

definition Transformers_init :: "ModelArgs \<Rightarrow> error + Transformers_layout" where
  "Transformers_init args =
     bindE (nn_Embedding (vocab_size args) (dim args)) (\<lambda>tok_embeddings.
     bindE (mapE (\<lambda>_. EncoderBlock_init args) [0 ..< nat (n_layers args)]) (\<lambda>layers.
     bindE (RMSNorm_init (dim args) (norm_eps args)) (\<lambda>norm.
     bindE (nn_Linear (dim args) (vocab_size args)) (\<lambda>output.
     bindE (py_floordiv (dim args) (n_heads args)) (\<lambda>head_dim.
     bindE (precompute_theta_pos_embeddings head_dim (max_seq_len args * 2) 10000) (\<lambda>freqs_complex.
       Inr \<lparr>lay_tok_embeddings = tok_embeddings, lay_layers = layers, lay_norm = norm,
            lay_output = output, lay_freqs_complex = freqs_complex\<rparr>))))))"

section \<open>Self-attention: the forward step\<close>

text \<open>
  At run time a unit holds its sizes, its four weight matrices (each of shape
  \<open>[out, in]\<close>) and its two cache buffers of shape
  \<open>[max_batch_size, max_seq_len, n_kv_heads, head_dim]\<close>. Sizes are natural numbers.
\<close>

record SelfAttention =
  sa_max_seq_len :: nat
  sa_n_kv_heads :: nat
  sa_n_heads_q :: nat
  sa_n_rep :: nat
  sa_head_dim :: nat
  sa_wq :: "real list list"
  sa_wk :: "real list list"
  sa_wv :: "real list list"
  sa_wo :: "real list list"
  cache_k :: "real list list list list"
  cache_v :: "real list list list list"

definition dot :: "real list \<Rightarrow> real list \<Rightarrow> real" where
  "dot u v = sum_list (map2 (*) u v)"

text \<open>A bias-free linear map on one vector; the sizes must agree.\<close>

definition linear :: "real list list \<Rightarrow> real list \<Rightarrow> error + real list" where
  "linear W v =
     (if list_all (\<lambda>row. length row = length v) W then Inr (map (\<lambda>row. dot row v) W)
      else Inl RuntimeError)"

text \<open>\<open>t.view(batch_size, seq_len, n, d)\<close> on the last axis: \<open>n\<close> chunks of \<open>d\<close> entries.\<close>

fun chunks :: "nat \<Rightarrow> nat \<Rightarrow> 'a list \<Rightarrow> 'a list list" where
  "chunks 0 d xs = []"
| "chunks (Suc n) d xs = take d xs # chunks n d (drop d xs)"

definition view_heads :: "nat \<Rightarrow> nat \<Rightarrow> 'a list \<Rightarrow> error + 'a list list" where
  "view_heads n d v = (if length v = n * d then Inr (chunks n d v) else Inl RuntimeError)"

text \<open>
  Assignment to the slice \<open>buf[:batch_size, start_pos : start_pos + seq_len]\<close> of a
  value \<open>v\<close> of shape \<open>[batch_size, seq_len, vh, vd]\<close>. The buffer has \<open>ncols\<close>
  positions per batch slot and entries of shape \<open>[bh, bd]\<close> (heads and head dimension).
  The slice bounds are clamped, so the target, of shape \<open>[rows, cols, bh, bd]\<close>, can be
  smaller than the value. The value is broadcast to the target: on each of the four axes
  the sizes must be equal or the size of the value must be 1, and an axis of size 1 is
  repeated; any other mismatch raises.
\<close>

definition bcast_ok :: "nat \<Rightarrow> nat \<Rightarrow> bool" where
  "bcast_ok v t = (v = t \<or> v = 1)"

definition bcast_index :: "nat \<Rightarrow> nat \<Rightarrow> nat" where
  "bcast_index n i = (if n = 1 then 0 else i)"

definition broadcast_entry :: "nat \<Rightarrow> nat \<Rightarrow> nat \<Rightarrow> nat \<Rightarrow> 'a list list \<Rightarrow> 'a list list" where
  "broadcast_entry bh bd vh vd e =
     map (\<lambda>a. map (\<lambda>c. e ! bcast_index vh a ! bcast_index vd c) [0 ..< bd]) [0 ..< bh]"

text \<open>An entry of shape \<open>[nh, nd]\<close>: \<open>nh\<close> heads of \<open>nd\<close> coordinates.\<close>

definition entry_shape :: "nat \<Rightarrow> nat \<Rightarrow> 'a list list \<Rightarrow> bool" where
  "entry_shape nh nd e = (length e = nh \<and> list_all (\<lambda>r. length r = nd) e)"

definition slice_assign ::
    "'a list list list list \<Rightarrow> nat \<Rightarrow> nat \<Rightarrow> nat \<Rightarrow> nat \<Rightarrow> int \<Rightarrow> nat \<Rightarrow> nat \<Rightarrow> nat
      \<Rightarrow> 'a list list list list \<Rightarrow> error + 'a list list list list" where
  "slice_assign buf ncols bh bd batch_size start_pos seq_len vh vd v =
     (let rows = min batch_size (length buf);
          l = slice_bound ncols start_pos;
          h = slice_bound ncols (start_pos + int seq_len);
          cols = h - l
      in if bcast_ok batch_size rows \<and> bcast_ok seq_len cols \<and> bcast_ok vh bh \<and> bcast_ok vd bd
         then Inr (map (\<lambda>i.
                if i < rows
                then take l (buf ! i)
                     @ map (\<lambda>j. broadcast_entry bh bd vh vd
                                  (v ! bcast_index batch_size i ! bcast_index seq_len j))
                         [0 ..< cols]
                     @ drop (l + cols) (buf ! i)
                else buf ! i) [0 ..< length buf])
         else Inl RuntimeError)"

text \<open>The read \<open>buf[:batch_size, 0 : start_pos + seq_len]\<close>.\<close>

definition slice_read :: "'a list list \<Rightarrow> nat \<Rightarrow> int \<Rightarrow> nat \<Rightarrow> 'a list list" where
  "slice_read buf batch_size start_pos seq_len =
     map (py_slice 0 (start_pos + int seq_len)) (take batch_size buf)"

text \<open>
  The cache protocol of \<open>SelfAttention.forward\<close>: write the new keys and values, then
  read the history of both. The buffers have the shape
  \<open>[max_batch_size, max_seq_len, n_kv_heads, head_dim]\<close> that \<open>__init__\<close> gives them,
  and the new keys and values the shape \<open>[batch_size, seq_len, n_kv_heads, head_dim]\<close>
  that \<open>view\<close> gives them.
\<close>

definition cache_update ::
    "SelfAttention \<Rightarrow> nat \<Rightarrow> int \<Rightarrow> nat \<Rightarrow> real list list list list \<Rightarrow> real list list list list
      \<Rightarrow> error + (real list list list list \<times> real list list list list \<times> SelfAttention)" where
  "cache_update self batch_size start_pos seq_len xk xv =
     bindE (slice_assign (cache_k self) (sa_max_seq_len self) (sa_n_kv_heads self)
              (sa_head_dim self) batch_size start_pos seq_len (sa_n_kv_heads self)
              (sa_head_dim self) xk) (\<lambda>ck.
     bindE (slice_assign (cache_v self) (sa_max_seq_len self) (sa_n_kv_heads self)
              (sa_head_dim self) batch_size start_pos seq_len (sa_n_kv_heads self)
              (sa_head_dim self) xv) (\<lambda>cv.
       let self = self\<lparr>cache_k := ck, cache_v := cv\<rparr>;
           keys = slice_read (cache_k self) batch_size start_pos seq_len;
           values = slice_read (cache_v self) batch_size start_pos seq_len
       in Inr (keys, values, self)))"

text \<open>
  \<open>torch.sqrt(input)\<close> takes a tensor; a Python number is a \<open>TypeError\<close>. (The square
  root of a negative entry is NaN, which the idealised reals do not have.)
\<close>

definition torch_sqrt :: "real pyarg \<Rightarrow> error + real" where
  "torch_sqrt a = (case a of PyTensor t \<Rightarrow> Inr (sqrt t) | PyInt _ \<Rightarrow> Inl TypeError)"

text \<open>
  Matrix product of \<open>A\<close> of shape \<open>[n, m]\<close> with \<open>B\<close> of shape \<open>[m, k]\<close>, and softmax of
  one row.
\<close>

definition matmul :: "real list list \<Rightarrow> real list list \<Rightarrow> error + real list list" where
  "matmul A B =
     (if list_all (\<lambda>row. length row = length B) A
      then Inr (map (\<lambda>row. map (\<lambda>col. dot row col) (transpose B)) A)
      else Inl RuntimeError)"

definition softmax :: "real list \<Rightarrow> real list" where
  "softmax row = (let es = map exp row in map (\<lambda>e. e / sum_list es) es)"

text \<open>
  The attention core of \<open>SelfAttention.forward\<close>, on \<open>xq\<close> of shape
  \<open>[batch, heads, 1, head_dim]\<close> and \<open>keys\<close>, \<open>values\<close> of shape
  \<open>[batch, heads, positions, head_dim]\<close>: the scores are
  \<open>matmul(xq, keys.transpose(2, 3)) / torch.sqrt(self.head_dim)\<close>, where
  \<open>self.head_dim\<close> is a Python integer; then the softmax over the last axis and the
  product with the values. Python evaluates the product before the square root.
\<close>

definition attention_core ::
    "real list list list list \<Rightarrow> real list list list list \<Rightarrow> real list list list list \<Rightarrow> nat
      \<Rightarrow> error + real list list list list" where
  "attention_core xq keys vals head_dim =
     bindE (broadcast_op (broadcast_op (\<lambda>q k. matmul q (transpose k))) xq keys) (\<lambda>prod.
     bindE (torch_sqrt (PyInt (int head_dim))) (\<lambda>root.
       let scores = map (map (map (map (\<lambda>s. s / root)))) prod;
           scores = map (map (map softmax)) scores
       in broadcast_op (broadcast_op matmul) scores vals))"

text \<open>
  \<open>SelfAttention.forward(self, x, start_pos, freq_complex)\<close> with \<open>x\<close> of shape
  \<open>[batch, seq, dim]\<close>. It returns the output and the unit with its updated cache. An
  empty batch is taken to have no positions.
\<close>

definition SelfAttention_forward ::
    "SelfAttention \<Rightarrow> real list list list \<Rightarrow> int \<Rightarrow> complex list list
      \<Rightarrow> error + (real list list list \<times> SelfAttention)" where
  "SelfAttention_forward self x start_pos freq_complex =
     (let batch_size = length x;
          seq_len = (case x of [] \<Rightarrow> 0 | r # _ \<Rightarrow> length r)
      in bindE (mapE (mapE (linear (sa_wq self))) x) (\<lambda>xq.
         bindE (mapE (mapE (linear (sa_wk self))) x) (\<lambda>xk.
         bindE (mapE (mapE (linear (sa_wv self))) x) (\<lambda>xv.
         bindE (mapE (mapE (view_heads (sa_n_heads_q self) (sa_head_dim self))) xq) (\<lambda>xq.
         bindE (mapE (mapE (view_heads (sa_n_kv_heads self) (sa_head_dim self))) xk) (\<lambda>xk.
         bindE (mapE (mapE (view_heads (sa_n_kv_heads self) (sa_head_dim self))) xv) (\<lambda>xv.
         bindE (apply_rotary_embeddings xq freq_complex) (\<lambda>xq.
         bindE (apply_rotary_embeddings xk freq_complex) (\<lambda>xk.
         bindE (cache_update self batch_size start_pos seq_len xk xv) (\<lambda>(keys, vals, self).
           let keys = repeat_kv keys (sa_n_rep self);
               vals = repeat_kv vals (sa_n_rep self);
               xq = map transpose xq;
               keys = map transpose keys;
               vals = map transpose vals
           in bindE (attention_core xq keys vals (sa_head_dim self)) (\<lambda>output.
              let output = map (map concat) (map transpose output)
              in bindE (mapE (mapE (linear (sa_wo self))) output) (\<lambda>out.
                 Inr (out, self)))))))))))))"

section \<open>Feed-forward: the forward step\<close>

definition silu :: "real \<Rightarrow> real" where
  "silu a = a / (1 + exp (- a))"

text \<open>\<open>FeedForward.forward\<close> on one vector, with the three weight matrices.\<close>

definition FeedForward_forward ::
    "real list list \<Rightarrow> real list list \<Rightarrow> real list list \<Rightarrow> real list \<Rightarrow> error + real list" where
  "FeedForward_forward w1 w2 w3 x =
     bindE (linear w1 x) (\<lambda>a.
       let swish = map silu a
       in bindE (linear w3 x) (\<lambda>x_v.
          bindE (broadcast_op (\<lambda>p q. Inr (p * q)) x_v swish) (\<lambda>x. linear w2 x)))"

section \<open>Decoder block: the forward step\<close>

text \<open>
  A block calls its four sub-units through its attributes, so the block is modelled
  over any four sub-units: the attention (which also returns its updated state), the
  feed-forward unit, the two normalisations, and the addition of hidden states.
\<close>

record ('h, 'f, 's) EncoderBlock =
  attention :: "'s \<Rightarrow> 'h \<Rightarrow> int \<Rightarrow> 'f \<Rightarrow> error + ('h \<times> 's)"
  feed_forward :: "'h \<Rightarrow> error + 'h"
  attention_norm :: "'h \<Rightarrow> error + 'h"
  ffn_norm :: "'h \<Rightarrow> error + 'h"
  add :: "'h \<Rightarrow> 'h \<Rightarrow> 'h"

text \<open>\<open>EncoderBlock.forward(self, x, start_pos, freqs_complex)\<close>, in the order of evaluation
  of the source.\<close>

definition EncoderBlock_forward ::
    "('h, 'f, 's) EncoderBlock \<Rightarrow> 'h \<Rightarrow> int \<Rightarrow> 'f \<Rightarrow> 's \<Rightarrow> error + ('h \<times> 's)" where
  "EncoderBlock_forward self x start_pos freqs_complex st =
     bindE (attention_norm self x) (\<lambda>xn.
     bindE (attention self st xn start_pos freqs_complex) (\<lambda>(a, st).
       let h = add self x a
       in bindE (ffn_norm self x) (\<lambda>n.
          bindE (feed_forward self n) (\<lambda>f.
            let out = add self h f in Inr (out, st)))))"

text \<open>
  The block as the text of the design states it: the feed-forward branch normalises
  \<open>h\<close>.
\<close>

definition DecoderBlock_spec ::
    "('h, 'f, 's) EncoderBlock \<Rightarrow> 'h \<Rightarrow> int \<Rightarrow> 'f \<Rightarrow> 's \<Rightarrow> error + ('h \<times> 's)" where
  "DecoderBlock_spec self x start_pos rotary_slice st =
     bindE (attention_norm self x) (\<lambda>xn.
     bindE (attention self st xn start_pos rotary_slice) (\<lambda>(a, st).
       let h = add self x a
       in bindE (ffn_norm self h) (\<lambda>n.
          bindE (feed_forward self n) (\<lambda>f. Inr (add self h f, st)))))"

section \<open>The model: the forward step\<close>

text \<open>
  The token tensor with its shape; the forward step only unpacks the shape and hands the
  tensor to the embedding.
\<close>

record token_tensor =
  tok_shape :: "nat list"
  tok_data :: "int list"

text \<open>
  The model at run time: the embedding, the layers in order (each a function of the
  hidden state, the position, the rotary slice and the state of the caches), the final
  normalisation, the output projection and the rotary table.
\<close>

record ('h, 'f, 's) Transformers =
  tok_embeddings :: "token_tensor \<Rightarrow> error + 'h"
  layers :: "('h \<Rightarrow> int \<Rightarrow> 'f list \<Rightarrow> 's \<Rightarrow> error + ('h \<times> 's)) list"
  norm :: "'h \<Rightarrow> error + 'h"
  output_proj :: "'h \<Rightarrow> error + 'h"
  freqs_complex :: "'f list"

fun run_layers ::
    "('h \<Rightarrow> int \<Rightarrow> 'f list \<Rightarrow> 's \<Rightarrow> error + ('h \<times> 's)) list \<Rightarrow> 'h \<Rightarrow> int \<Rightarrow> 'f list \<Rightarrow> 's
      \<Rightarrow> error + ('h \<times> 's)" where
  "run_layers [] h start_pos fc st = Inr (h, st)"
| "run_layers (layer # ls) h start_pos fc st =
     bindE (layer h start_pos fc st) (\<lambda>(h, st). run_layers ls h start_pos fc st)"

text \<open>The statements of \<open>Transformers.forward\<close> after the assertion.\<close>

definition Transformers_forward_body ::
    "('h, 'f, 's) Transformers \<Rightarrow> token_tensor \<Rightarrow> nat \<Rightarrow> int \<Rightarrow> 's \<Rightarrow> error + ('h \<times> 's)" where
  "Transformers_forward_body self tokens seq_len start_pos st =
     bindE (tok_embeddings self tokens) (\<lambda>h.
       let fc = py_slice start_pos (start_pos + int seq_len) (freqs_complex self)
       in bindE (run_layers (layers self) h start_pos fc st) (\<lambda>(h, st).
          bindE (norm self h) (\<lambda>h.
          bindE (output_proj self h) (\<lambda>output. Inr (output, st)))))"

text \<open>
  \<open>Transformers.forward(self, tokens, start_pos)\<close>: the shape is unpacked into two
  names (a tensor of another rank cannot be unpacked), then
  \<open>assert seq_len == 1\<close>.
\<close>

definition Transformers_forward ::
    "('h, 'f, 's) Transformers \<Rightarrow> token_tensor \<Rightarrow> int \<Rightarrow> 's \<Rightarrow> error + ('h \<times> 's)" where
  "Transformers_forward self tokens start_pos st =
     (case tok_shape tokens of
        [batch_size, seq_len] \<Rightarrow>
          if seq_len \<noteq> 1 then Inl AssertionError
          else Transformers_forward_body self tokens seq_len start_pos st
      | _ \<Rightarrow> Inl ValueError)"

section \<open>Properties\<close>

subsection \<open>Results of fallible steps\<close>

lemma bindE_simps:
  "bindE (Inl e) f = Inl e" "bindE (Inr v) f = f v"
  by (simp_all add: bindE_def)

lemma bindE_isl: "isl m \<Longrightarrow> isl (bindE m f)"
  by (cases m) (simp_all add: bindE_def)

lemma bindE_isl_cont: "(\<And>v. isl (f v)) \<Longrightarrow> isl (bindE m f)"
  by (cases m) (simp_all add: bindE_def)

subsection \<open>Construction\<close>

lemma EncoderBlock_init_raises:
  "EncoderBlock_init args = Inl (if n_heads args = 0 then ZeroDivisionError else TypeError)"
  by (simp add: EncoderBlock_init_def py_floordiv_def SelfAttention_init_def bindE_simps)

lemma layers_fail:
  assumes "1 \<le> n_layers args"
  shows "isl (mapE (\<lambda>_. EncoderBlock_init args) [0 ..< nat (n_layers args)])"
proof -
  from assms obtain k where k: "nat (n_layers args) = Suc k"
    by (cases "nat (n_layers args)") auto
  show ?thesis
    by (simp add: k upt_conv_Cons EncoderBlock_init_raises bindE_simps del: upt_Suc)
qed

text \<open>
  C1, as the code has it. For every configuration the construction of an
  \<open>EncoderBlock\<close> raises: a \<open>ZeroDivisionError\<close> when \<open>n_heads\<close> is 0, and otherwise the
  \<open>TypeError\<close> of \<open>SelfAttention()\<close>, called without its required argument. The
  construction of the model therefore raises whenever it has at least one layer.
\<close>

theorem construction_raises:
  "EncoderBlock_init args = Inl (if n_heads args = 0 then ZeroDivisionError else TypeError) \<and>
   (1 \<le> n_layers args \<longrightarrow> isl (Transformers_init args))"
proof (intro conjI impI)
  show "EncoderBlock_init args = Inl (if n_heads args = 0 then ZeroDivisionError else TypeError)"
    by (rule EncoderBlock_init_raises)
next
  assume "1 \<le> n_layers args"
  from layers_fail [OF this] show "isl (Transformers_init args)"
    unfolding Transformers_init_def
    by (cases "nn_Embedding (vocab_size args) (dim args)") (simp_all add: bindE_simps bindE_isl)
qed

theorem construction_raises_witness:
  "(1::int) \<le> n_layers (default_args\<lparr>vocab_size := 32000\<rparr>) \<and>
   EncoderBlock_init (default_args\<lparr>vocab_size := 32000\<rparr>) = Inl TypeError \<and>
   isl (Transformers_init (default_args\<lparr>vocab_size := 32000\<rparr>))"
  using construction_raises [of "default_args\<lparr>vocab_size := 32000\<rparr>"]
  by (simp add: default_args_def)

text \<open>
  With no layers the loop constructs no block, and a model is built: here with
  \<open>dim = 3\<close> and one head, so that the head dimension 3 passes the assertion of the
  rotary table.
\<close>

theorem model_without_layers_is_built:
  "\<not> isl (Transformers_init \<lparr>dim = 3, n_layers = 0, n_heads = 1, n_kv_heads = None,
      vocab_size = 10, multiple_of = 256, ffn_dim_multiplier = None, norm_eps = 1 / 10000,
      max_batch_size = 1, max_seq_len = 4, device = Some ''cpu''\<rparr>)"
  by (simp add: Transformers_init_def nn_Embedding_def RMSNorm_init_def nn_Linear_def
      py_floordiv_def precompute_theta_pos_embeddings_def torch_arange_def bindE_simps)

subsection \<open>Feed-forward width\<close>

lemma feed_forward_width_used:
  assumes "FeedForward_init (Some args) = Inr ff"
  shows "out_features (lay_w1 ff) =
           (case ffn_dim_multiplier args of
              None \<Rightarrow> py_int (2 * real_of_int (4 * dim args) / 3)
            | Some m \<Rightarrow> py_int m)"
    and "in_features (lay_w2 ff) = out_features (lay_w1 ff)"
    and "out_features (lay_w3 ff) = out_features (lay_w1 ff)"
  using assms
  by (auto simp: FeedForward_init_def py_floordiv_def nn_Linear_def bindE_simps Let_def
      split: if_splits option.splits)

text \<open>
  C6. For the default configuration (\<open>dim = 4096\<close>, \<open>multiple_of = 256\<close>, no multiplier)
  the three linear maps are built with the width 10922, which is not a multiple of 256;
  the width of the design, rounded up, is 11008.
\<close>

theorem feed_forward_width_not_rounded:
  "FeedForward_init (Some default_args) =
     Inr \<lparr>lay_w1 = \<lparr>in_features = 4096, out_features = 10922\<rparr>,
          lay_w2 = \<lparr>in_features = 10922, out_features = 4096\<rparr>,
          lay_w3 = \<lparr>in_features = 4096, out_features = 10922\<rparr>\<rparr> \<and>
   spec_hidden_width default_args = 11008 \<and> \<not> (256 :: int) dvd 10922"
  by (simp add: FeedForward_init_def default_args_def py_int_def py_floordiv_def nn_Linear_def
      spec_hidden_width_def bindE_simps)

subsection \<open>Rotary embedding table\<close>

lemma even_head_dim_raises:
  "head_dim mod 2 = 0 \<Longrightarrow>
   precompute_theta_pos_embeddings head_dim seq_len theta = Inl AssertionError"
  by (simp add: precompute_theta_pos_embeddings_def)

text \<open>
  What the body computes when the assertion lets it run, that is for an odd head
  dimension: one row per position, one column per exponent, and the unit rotations
  \<open>cis (p \<times> theta ** (- 2 i / head_dim))\<close>.
\<close>

lemma rotary_table_odd:
  assumes "head_dim mod 2 \<noteq> 0" and "0 \<le> head_dim" and "0 \<le> seq_len"
  shows "\<exists>T. precompute_theta_pos_embeddings head_dim seq_len theta = Inr T \<and>
           length T = nat seq_len \<and>
           (\<forall>p < nat seq_len. length (T ! p) = nat ((head_dim + 1) div 2) \<and>
              (\<forall>i < nat ((head_dim + 1) div 2).
                 T ! p ! i = cis (real p * theta powr (- (2 * real i) / real_of_int head_dim))))"
  using assms
  by (simp add: precompute_theta_pos_embeddings_def torch_arange_def bindE_simps
      powr_minus_divide mult.commute add.commute)

text \<open>
  C4. The assertion is inverted: the even head dimension 4 is rejected with an
  \<open>AssertionError\<close>, and the odd head dimension 3 is accepted and a table is returned.
\<close>

theorem even_head_dim_rejected:
  "precompute_theta_pos_embeddings 4 8 10000 = Inl AssertionError \<and>
   \<not> isl (precompute_theta_pos_embeddings 3 8 10000)"
  by (simp add: precompute_theta_pos_embeddings_def torch_arange_def bindE_simps)

text \<open>
  C10. For the even head dimension \<open>8 / 2 = 4\<close> and \<open>max_seq_len = 4\<close> no table of
  shape \<open>[8, 2]\<close> is produced: the table function raises, and so does the construction
  of the model that calls it (here without layers, so that the table is reached).
\<close>

theorem rotary_table_not_built_for_even_head_dim:
  "precompute_theta_pos_embeddings (8 div 2) (4 * 2) 10000 = Inl AssertionError \<and>
   Transformers_init \<lparr>dim = 8, n_layers = 0, n_heads = 2, n_kv_heads = Some 1,
      vocab_size = 10, multiple_of = 256, ffn_dim_multiplier = None, norm_eps = 1 / 10000,
      max_batch_size = 1, max_seq_len = 4, device = Some ''cpu''\<rparr> = Inl AssertionError"
  by (simp add: Transformers_init_def nn_Embedding_def RMSNorm_init_def nn_Linear_def
      py_floordiv_def precompute_theta_pos_embeddings_def bindE_simps)

subsection \<open>Rotary embedding application\<close>

lemma rotary_isl: "isl (apply_rotary_embeddings x freqs)"
  by (cases "mapE (mapE (mapE pairs)) x")
    (simp_all add: apply_rotary_embeddings_def torch_unsqueeze_def bindE_simps)

text \<open>
  C3. \<open>apply_rotary_embeddings\<close> raises for every input, and for an input with an even
  trailing dimension and a matching rotary slice it raises the \<open>TypeError\<close> of
  \<open>torch.unsqueeze(0)\<close>.
\<close>

theorem apply_rotary_embeddings_raises:
  "isl (apply_rotary_embeddings x freqs) \<and>
   apply_rotary_embeddings [[[[1, 0]]]] [[1]] = Inl TypeError"
proof
  show "isl (apply_rotary_embeddings x freqs)"
    by (cases "mapE (mapE (mapE pairs)) x")
      (simp_all add: apply_rotary_embeddings_def torch_unsqueeze_def bindE_simps)
  show "apply_rotary_embeddings [[[[1, 0]]]] [[1]] = Inl TypeError"
    by (simp add: apply_rotary_embeddings_def torch_unsqueeze_def bindE_simps)
qed

subsection \<open>Self-attention\<close>

lemma SelfAttention_forward_raises: "isl (SelfAttention_forward self x start_pos fc)"
  unfolding SelfAttention_forward_def Let_def
  apply (rule bindE_isl_cont)
  apply (rule bindE_isl_cont)
  apply (rule bindE_isl_cont)
  apply (rule bindE_isl_cont)
  apply (rule bindE_isl_cont)
  apply (rule bindE_isl_cont)
  apply (rule bindE_isl)
  apply (rule rotary_isl)
  done

text \<open>
  C5. The attention core raises for every input: the divisor
  \<open>torch.sqrt(self.head_dim)\<close> is the square root of a Python integer, a \<open>TypeError\<close>.
  So it does for a single token with one head of dimension 1.
\<close>

theorem attention_core_raises:
  "isl (attention_core xq keys vals head_dim) \<and>
   attention_core [[[[1]]]] [[[[1]]]] [[[[1]]]] 1 = Inl TypeError"
proof
  show "isl (attention_core xq keys vals head_dim)"
    by (cases "broadcast_op (broadcast_op (\<lambda>q k. matmul q (transpose k))) xq keys")
      (simp_all add: attention_core_def torch_sqrt_def bindE_simps)
  show "attention_core [[[[1]]]] [[[[1]]]] [[[[1]]]] 1 = Inl TypeError"
    by (simp add: attention_core_def torch_sqrt_def broadcast_op_def bzip_def matmul_def
        bindE_simps)
qed

subsection \<open>Key/value cache\<close>

lemma slice_bound_nat: "slice_bound n (int k) = min k n"
  by (simp add: slice_bound_def)

lemma slice_bound_nat_Suc: "slice_bound n (int k + 1) = min (Suc k) n"
proof -
  have "int k + 1 = int (Suc k)" by simp
  then show ?thesis by (simp only: slice_bound_nat)
qed

lemma slice_bound_zero: "slice_bound n 0 = 0"
  by (simp add: slice_bound_def)

lemma bcast_index_less: "i < n \<Longrightarrow> bcast_index n i = i"
  by (auto simp: bcast_index_def)

lemma broadcast_entry_same:
  assumes "length e = nh" and "list_all (\<lambda>r. length r = nd) e"
  shows "broadcast_entry nh nd nh nd e = e"
proof (rule nth_equalityI)
  show "length (broadcast_entry nh nd nh nd e) = length e"
    using assms(1) by (simp add: broadcast_entry_def)
next
  fix a assume "a < length (broadcast_entry nh nd nh nd e)"
  then have a: "a < nh" by (simp add: broadcast_entry_def)
  then have len: "length (e ! a) = nd"
    using assms by (simp add: list_all_length)
  have "map (\<lambda>c. e ! a ! bcast_index nd c) [0 ..< nd] = e ! a"
    by (rule nth_equalityI) (simp_all add: len bcast_index_less)
  then show "broadcast_entry nh nd nh nd e ! a = e ! a"
    using a by (simp add: broadcast_entry_def bcast_index_less)
qed

lemma slice_assign_step:
  assumes "b \<le> length buf" and "p < ncols"
  shows "slice_assign buf ncols nh nd b (int p) 1 nh nd v =
           Inr (map (\<lambda>i. if i < b
                  then take p (buf ! i) @ [broadcast_entry nh nd nh nd (v ! bcast_index b i ! 0)]
                       @ drop (Suc p) (buf ! i)
                  else buf ! i) [0 ..< length buf])"
  using assms
  by (simp add: slice_assign_def slice_bound_nat slice_bound_nat_Suc bcast_index_def
      bcast_ok_def min_absorb1 Let_def)

text \<open>
  The write of one new position \<open>p\<close> for the first \<open>b\<close> slots: in these slots the entry
  at \<open>p\<close> becomes the new entry, and nothing else in the buffer changes.
\<close>

lemma slice_assign_single:
  assumes "b \<le> length buf" and "p < ncols"
    and "length v = b" and "list_all (\<lambda>r. length r = 1 \<and> list_all (entry_shape nh nd) r) v"
  shows "slice_assign buf ncols nh nd b (int p) 1 nh nd v =
           Inr (map (\<lambda>i. if i < b then take p (buf ! i) @ v ! i @ drop (Suc p) (buf ! i)
                          else buf ! i) [0 ..< length buf])"
proof -
  have "take p (buf ! i) @ [broadcast_entry nh nd nh nd (v ! bcast_index b i ! 0)]
          @ drop (Suc p) (buf ! i)
        = take p (buf ! i) @ v ! i @ drop (Suc p) (buf ! i)" if i: "i < b" for i
  proof -
    from i assms(3,4) have len: "length (v ! i) = 1" and sh: "list_all (entry_shape nh nd) (v ! i)"
      by (simp_all add: list_all_length)
    from len have vi: "v ! i = [v ! i ! 0]" by (cases "v ! i") simp_all
    from sh len have "entry_shape nh nd (v ! i ! 0)" by (simp add: list_all_length)
    then have "broadcast_entry nh nd nh nd (v ! i ! 0) = v ! i ! 0"
      by (simp add: entry_shape_def broadcast_entry_same)
    with vi show ?thesis by (simp add: bcast_index_less [OF i])
  qed
  then have "(\<lambda>i. if i < b
                  then take p (buf ! i) @ [broadcast_entry nh nd nh nd (v ! bcast_index b i ! 0)]
                       @ drop (Suc p) (buf ! i)
                  else buf ! i)
           = (\<lambda>i. if i < b then take p (buf ! i) @ v ! i @ drop (Suc p) (buf ! i) else buf ! i)"
    by auto
  with slice_assign_step [OF assms(1,2), of nh nd v] show ?thesis by simp
qed

text \<open>
  The read after that write: for each of the \<open>b\<close> slots the old entries before \<open>p\<close>
  followed by the new entry.
\<close>

lemma slice_read_single:
  assumes "b \<le> length buf" and "p < ncols"
    and "list_all (\<lambda>row. length row = ncols) buf"
    and "length v = b" and "list_all (\<lambda>r. length r = 1) v"
  shows "slice_read (map (\<lambda>i. if i < b then take p (buf ! i) @ v ! i @ drop (Suc p) (buf ! i)
                               else buf ! i) [0 ..< length buf]) b (int p) 1
         = map (\<lambda>i. take p (buf ! i) @ v ! i) [0 ..< b]"
proof (rule nth_equalityI)
  show "length (slice_read (map (\<lambda>i. if i < b
            then take p (buf ! i) @ v ! i @ drop (Suc p) (buf ! i) else buf ! i)
          [0 ..< length buf]) b (int p) 1) = length (map (\<lambda>i. take p (buf ! i) @ v ! i) [0 ..< b])"
    using assms(1) by (simp add: slice_read_def)
next
  fix i
  assume "i < length (slice_read (map (\<lambda>i. if i < b
            then take p (buf ! i) @ v ! i @ drop (Suc p) (buf ! i) else buf ! i)
          [0 ..< length buf]) b (int p) 1)"
  with assms(1) have i: "i < b" by (simp add: slice_read_def)
  with assms have row: "length (buf ! i) = ncols" and vi: "length (v ! i) = 1"
    by (simp_all add: list_all_length)
  have "py_slice 0 (int p + 1) (take p (buf ! i) @ v ! i @ drop (Suc p) (buf ! i))
        = take p (buf ! i) @ v ! i"
    using assms(2) row vi
    by (simp add: py_slice_def slice_bound_zero slice_bound_nat_Suc Let_def)
  with i assms(1) show "slice_read (map (\<lambda>i. if i < b
            then take p (buf ! i) @ v ! i @ drop (Suc p) (buf ! i) else buf ! i)
          [0 ..< length buf]) b (int p) 1 ! i = map (\<lambda>i. take p (buf ! i) @ v ! i) [0 ..< b] ! i"
    by (simp add: slice_read_def)
qed

text \<open>
  The cache statements by themselves, as they would run once the rotary step returned.
  Let the two buffers have at least \<open>b\<close> batch slots of \<open>max_seq_len\<close> positions each,
  let \<open>p + 1 \<le> max_seq_len\<close>, and let \<open>xk\<close> and \<open>xv\<close> hold one new entry of shape
  \<open>[n_kv_heads, head_dim]\<close> for each of the \<open>b\<close> slots. Then the update succeeds; the
  unit it returns holds the new entries at position \<open>p\<close> of the first \<open>b\<close> slots of its two
  buffers and is otherwise unchanged; and the histories returned are, for each of the
  \<open>b\<close> slots, the old entries before \<open>p\<close> followed by the new entry.
\<close>

lemma cache_update_round_trip:
  assumes "b \<le> length (cache_k self)" and "b \<le> length (cache_v self)"
    and "p + 1 \<le> sa_max_seq_len self"
    and "list_all (\<lambda>row. length row = sa_max_seq_len self) (cache_k self)"
    and "list_all (\<lambda>row. length row = sa_max_seq_len self) (cache_v self)"
    and "length xk = b" and "length xv = b"
    and "list_all (\<lambda>r. length r = 1 \<and>
           list_all (entry_shape (sa_n_kv_heads self) (sa_head_dim self)) r) xk"
    and "list_all (\<lambda>r. length r = 1 \<and>
           list_all (entry_shape (sa_n_kv_heads self) (sa_head_dim self)) r) xv"
  shows "cache_update self b (int p) 1 xk xv =
           Inr (map (\<lambda>i. take p (cache_k self ! i) @ xk ! i) [0 ..< b],
                map (\<lambda>i. take p (cache_v self ! i) @ xv ! i) [0 ..< b],
                self\<lparr>cache_k := map (\<lambda>i. if i < b
                         then take p (cache_k self ! i) @ xk ! i @ drop (Suc p) (cache_k self ! i)
                         else cache_k self ! i) [0 ..< length (cache_k self)],
                     cache_v := map (\<lambda>i. if i < b
                         then take p (cache_v self ! i) @ xv ! i @ drop (Suc p) (cache_v self ! i)
                         else cache_v self ! i) [0 ..< length (cache_v self)]\<rparr>)"
proof -
  have p: "p < sa_max_seq_len self" using assms(3) by simp
  have k1: "list_all (\<lambda>r. length r = 1) xk" and v1: "list_all (\<lambda>r. length r = 1) xv"
    using assms(8,9) by (simp_all add: list_all_length)
  note wk = slice_assign_single [OF assms(1) p assms(6) assms(8)]
  note wv = slice_assign_single [OF assms(2) p assms(7) assms(9)]
  note rk = slice_read_single [OF assms(1) p assms(4) assms(6) k1]
  note rv = slice_read_single [OF assms(2) p assms(5) assms(7) v1]
  show ?thesis
    unfolding cache_update_def wk wv by (simp add: bindE_simps rk rv del: One_nat_def)
qed

lemma cache_update_example:
  "cache_update
     \<lparr>sa_max_seq_len = 2, sa_n_kv_heads = 1, sa_n_heads_q = 1, sa_n_rep = 1, sa_head_dim = 2,
      sa_wq = [[1, 0], [0, 1]], sa_wk = [[1, 0], [0, 1]], sa_wv = [[1, 0], [0, 1]],
      sa_wo = [[1, 0], [0, 1]],
      cache_k = [[[[3, 3]], [[0, 0]]]], cache_v = [[[[4, 4]], [[0, 0]]]]\<rparr>
     1 1 1 [[[[5, 6]]]] [[[[7, 8]]]]
   = Inr ([[[[3, 3]], [[5, 6]]]], [[[[4, 4]], [[7, 8]]]],
      \<lparr>sa_max_seq_len = 2, sa_n_kv_heads = 1, sa_n_heads_q = 1, sa_n_rep = 1, sa_head_dim = 2,
       sa_wq = [[1, 0], [0, 1]], sa_wk = [[1, 0], [0, 1]], sa_wv = [[1, 0], [0, 1]],
       sa_wo = [[1, 0], [0, 1]],
       cache_k = [[[[3, 3]], [[5, 6]]]], cache_v = [[[[4, 4]], [[7, 8]]]]\<rparr>)"
  by (simp add: cache_update_def slice_assign_def slice_read_def py_slice_def slice_bound_def
      bcast_index_def bcast_ok_def broadcast_entry_def bindE_simps numeral_2_eq_2)

text \<open>
  C7. In the program the cache is written and read only inside
  \<open>SelfAttention.forward\<close>, and that step raises for every unit, input, position and
  rotary slice, in the rotary step that comes before the write: nothing is written and
  no history is returned. So it does for a unit with one head of dimension 2, a cache of
  one batch slot and two positions, one token and position 0, where the batch size 1 and
  the position are within the bounds of the cache.
\<close>

theorem cache_round_trip_not_reached:
  "isl (SelfAttention_forward self x start_pos fc) \<and>
   SelfAttention_forward
     \<lparr>sa_max_seq_len = 2, sa_n_kv_heads = 1, sa_n_heads_q = 1, sa_n_rep = 1, sa_head_dim = 2,
      sa_wq = [[1, 0], [0, 1]], sa_wk = [[1, 0], [0, 1]], sa_wv = [[1, 0], [0, 1]],
      sa_wo = [[1, 0], [0, 1]],
      cache_k = [[[[0, 0]], [[0, 0]]]], cache_v = [[[[0, 0]], [[0, 0]]]]\<rparr>
     [[[1, 0]]] 0 [[1]] = Inl TypeError"
proof
  show "isl (SelfAttention_forward self x start_pos fc)"
    by (rule SelfAttention_forward_raises)
  show "SelfAttention_forward
     \<lparr>sa_max_seq_len = 2, sa_n_kv_heads = 1, sa_n_heads_q = 1, sa_n_rep = 1, sa_head_dim = 2,
      sa_wq = [[1, 0], [0, 1]], sa_wk = [[1, 0], [0, 1]], sa_wv = [[1, 0], [0, 1]],
      sa_wo = [[1, 0], [0, 1]],
      cache_k = [[[[0, 0]], [[0, 0]]]], cache_v = [[[[0, 0]], [[0, 0]]]]\<rparr>
     [[[1, 0]]] 0 [[1]] = Inl TypeError"
    by (simp add: SelfAttention_forward_def linear_def dot_def view_heads_def
        apply_rotary_embeddings_def torch_unsqueeze_def bindE_simps)
qed

subsection \<open>Decoder block\<close>

text \<open>
  When the four sub-units return, the block returns \<open>h + feed_forward (ffn_norm x)\<close>
  with \<open>h = x + attention (attention_norm x)\<close>: the feed-forward branch normalises the
  input \<open>x\<close> of the block.
\<close>

lemma EncoderBlock_forward_value:
  assumes "attention_norm self x = Inr xn"
    and "attention self st xn start_pos fc = Inr (a, st')"
    and "ffn_norm self x = Inr n"
    and "feed_forward self n = Inr f"
  shows "EncoderBlock_forward self x start_pos fc st = Inr (add self (add self x a) f, st')"
  using assms by (simp add: EncoderBlock_forward_def bindE_simps)

text \<open>
  C2. With sub-units that are identities on numbers (the attention returns its input)
  and the block input 1, the post-attention residual is \<open>h = 2\<close>; the block returns
  \<open>h + x = 3\<close>, and the block of the design returns \<open>h + h = 4\<close>.
\<close>

theorem encoder_block_normalises_block_input:
  "EncoderBlock_forward
     \<lparr>attention = (\<lambda>st x start_pos fc. Inr (x, st)), feed_forward = Inr,
      attention_norm = Inr, ffn_norm = Inr, add = (+)\<rparr> (1::int) 0 () () = Inr (3, ()) \<and>
   DecoderBlock_spec
     \<lparr>attention = (\<lambda>st x start_pos fc. Inr (x, st)), feed_forward = Inr,
      attention_norm = Inr, ffn_norm = Inr, add = (+)\<rparr> (1::int) 0 () () = Inr (4, ())"
  by (simp add: EncoderBlock_forward_def DecoderBlock_spec_def bindE_simps)

subsection \<open>The forward step of the model\<close>

text \<open>
  C8. For a token tensor of shape \<open>[batch_size, seq_len]\<close>, the forward step raises an
  \<open>AssertionError\<close> when \<open>seq_len\<close> differs from 1, before any other statement runs and
  without a result or a change of state; when \<open>seq_len\<close> is 1 the assertion passes and
  the step is the rest of its body.
\<close>

theorem forward_requires_single_token:
  "tok_shape tokens = [batch_size, seq_len] \<Longrightarrow>
   (seq_len \<noteq> 1 \<longrightarrow> Transformers_forward self tokens start_pos st = Inl AssertionError) \<and>
   (seq_len = 1 \<longrightarrow> Transformers_forward self tokens start_pos st
                    = Transformers_forward_body self tokens 1 start_pos st)"
  by (simp add: Transformers_forward_def)

theorem forward_requires_single_token_witness:
  "Transformers_forward
     \<lparr>tok_embeddings = (\<lambda>t. Inr (tok_data t)), layers = [], norm = Inr, output_proj = Inr,
      freqs_complex = ([] :: complex list)\<rparr>
     \<lparr>tok_shape = [1, 2], tok_data = [3, 7]\<rparr> 0 () = Inl AssertionError \<and>
   Transformers_forward
     \<lparr>tok_embeddings = (\<lambda>t. Inr (tok_data t)), layers = [], norm = Inr, output_proj = Inr,
      freqs_complex = ([] :: complex list)\<rparr>
     \<lparr>tok_shape = [1, 1], tok_data = [3]\<rparr> 0 () = Inr ([3], ())"
proof -
  let ?m = "\<lparr>tok_embeddings = (\<lambda>t. Inr (tok_data t)), layers = [], norm = Inr,
      output_proj = Inr, freqs_complex = ([] :: complex list)\<rparr>
      :: (int list, complex, unit) Transformers"
  have "Transformers_forward ?m \<lparr>tok_shape = [1, 2], tok_data = [3, 7]\<rparr> 0 () = Inl AssertionError"
    using forward_requires_single_token
      [of "\<lparr>tok_shape = [1, 2], tok_data = [3, 7]\<rparr>" 1 2 ?m 0 "()"] by simp
  moreover have "Transformers_forward ?m \<lparr>tok_shape = [1, 1], tok_data = [3]\<rparr> 0 ()
      = Inr ([3], ())"
    using forward_requires_single_token
      [of "\<lparr>tok_shape = [1, 1], tok_data = [3]\<rparr>" 1 1 ?m 0 "()"]
    by (simp add: Transformers_forward_body_def bindE_simps)
  ultimately show ?thesis by simp
qed

subsection \<open>Head-group expansion\<close>

lemma length_concat_replicate:
  "length (concat (map (replicate k) hs)) = length hs * k"
  by (induction hs) simp_all

lemma nth_concat_replicate:
  "i < length hs \<Longrightarrow> j < k \<Longrightarrow> concat (map (replicate k) hs) ! (i * k + j) = hs ! i"
proof (induction hs arbitrary: i)
  case Nil
  then show ?case by simp
next
  case (Cons h hs)
  show ?case
  proof (cases i)
    case 0
    with Cons.prems show ?thesis by (simp add: nth_append)
  next
    case (Suc i')
    with Cons.prems have "i' < length hs" by simp
    from Cons.IH [OF this Cons.prems(2)] Suc show ?thesis
      by (simp add: nth_append add.assoc)
  qed
qed

text \<open>
  C9. With \<open>n_rep = 1\<close> the result of \<open>repeat_kv\<close> is its input. With \<open>n_rep = k\<close> the
  batch and position axes keep their sizes, the head axis has \<open>n_kv_heads \<times> k\<close> entries,
  and for every source head \<open>h\<close> each of the \<open>k\<close> contiguous slots \<open>h \<times> k + j\<close> holds
  exactly the head vector of the source head \<open>h\<close>.
\<close>

theorem repeat_kv_replicates:
  "repeat_kv x 1 = x \<and>
   length (repeat_kv x k) = length x \<and>
   (\<forall>b < length x. length (repeat_kv x k ! b) = length (x ! b) \<and>
     (\<forall>s < length (x ! b).
        length (repeat_kv x k ! b ! s) = length (x ! b ! s) * k \<and>
        (\<forall>h < length (x ! b ! s). \<forall>j < k.
           repeat_kv x k ! b ! s ! (h * k + j) = x ! b ! s ! h)))"
  by (simp add: repeat_kv_def length_concat_replicate nth_concat_replicate)

theorem repeat_kv_replicates_witness:
  "repeat_kv [[[''a'', ''b'']]] 1 = [[[''a'', ''b'']]] \<and>
   repeat_kv [[[''a'', ''b'']]] 3 = [[[''a'', ''a'', ''a'', ''b'', ''b'', ''b'']]] \<and>
   repeat_kv [[[''a'', ''b'']]] 3 ! 0 ! 0 ! (1 * 3 + 2) = [[[''a'', ''b'']]] ! 0 ! 0 ! 1"
proof -
  have "\<forall>h < Suc (Suc 0). \<forall>j < 3.
      repeat_kv [[[''a'', ''b'']]] 3 ! 0 ! 0 ! (h * 3 + j) = [''a'', ''b''] ! h"
    using repeat_kv_replicates [of "[[[''a'', ''b'']]]" 3] by simp
  from this [rule_format, of 1 2]
  have "repeat_kv [[[''a'', ''b'']]] 3 ! 0 ! 0 ! (1 * 3 + 2) = [[[''a'', ''b'']]] ! 0 ! 0 ! 1"
    by simp
  moreover have "repeat_kv [[[''a'', ''b'']]] 3 = [[[''a'', ''a'', ''a'', ''b'', ''b'', ''b'']]]"
    by (simp add: repeat_kv_def numeral_3_eq_3)
  moreover have "repeat_kv [[[''a'', ''b'']]] 1 = [[[''a'', ''b'']]]"
    by (simp add: repeat_kv_def)
  ultimately show ?thesis by simp
qed

end
